theory Spec2Isabelle
  imports Complex_Main "HOL-Library.List_Lexorder" "HOL-Library.Char_ord" "HOL-Library.Product_Lexorder"
begin

section \<open>Python string operations\<close>

text \<open>
  Strings are lists of characters. The model covers ASCII text: case conversion acts on the
  letters A-Z and a-z only, the white space of \<^verbatim>\<open>str.strip\<close> and \<^verbatim>\<open>str.split\<close> is
  the ASCII white space of Python (TAB, LF, VT, FF, CR, FS, GS, RS, US and the blank), and
  a digit is one of 0-9. On ASCII text \<^verbatim>\<open>casefold\<close> and \<^verbatim>\<open>lower\<close> agree.
\<close>

definition is_space :: "char \<Rightarrow> bool" where
  "is_space c = (c \<in> set [CHR 0x09, CHR 0x0A, CHR 0x0B, CHR 0x0C, CHR 0x0D,
                            CHR 0x1C, CHR 0x1D, CHR 0x1E, CHR 0x1F, CHR 0x20])"

definition is_digit :: "char \<Rightarrow> bool" where
  "is_digit c = (c \<in> set ''0123456789'')"

definition lower_char :: "char \<Rightarrow> char" where
  "lower_char c =
     (case map_of (zip ''ABCDEFGHIJKLMNOPQRSTUVWXYZ'' ''abcdefghijklmnopqrstuvwxyz'') c of
        Some d \<Rightarrow> d | None \<Rightarrow> c)"

definition upper_char :: "char \<Rightarrow> char" where
  "upper_char c =
     (case map_of (zip ''abcdefghijklmnopqrstuvwxyz'' ''ABCDEFGHIJKLMNOPQRSTUVWXYZ'') c of
        Some d \<Rightarrow> d | None \<Rightarrow> c)"

definition lower :: "string \<Rightarrow> string" where
  "lower s = map lower_char s"

definition upper :: "string \<Rightarrow> string" where
  "upper s = map upper_char s"

definition casefold :: "string \<Rightarrow> string" where
  "casefold s = lower s"

definition lstrip :: "string \<Rightarrow> string" where
  "lstrip s = dropWhile is_space s"

definition rstrip :: "string \<Rightarrow> string" where
  "rstrip s = rev (dropWhile is_space (rev s))"

definition strip :: "string \<Rightarrow> string" where
  "strip s = lstrip (rstrip s)"

definition lstrip_chars :: "string \<Rightarrow> string \<Rightarrow> string" where
  "lstrip_chars cs s = dropWhile (\<lambda>c. c \<in> set cs) s"

definition rstrip_chars :: "string \<Rightarrow> string \<Rightarrow> string" where
  "rstrip_chars cs s = rev (dropWhile (\<lambda>c. c \<in> set cs) (rev s))"

definition strip_chars :: "string \<Rightarrow> string \<Rightarrow> string" where
  "strip_chars cs s = lstrip_chars cs (rstrip_chars cs s)"

text \<open>\<^verbatim>\<open>s.split(sep)\<close> for a one-character separator: never empty, keeps empty fields.\<close>

fun split_acc :: "char \<Rightarrow> string \<Rightarrow> string \<Rightarrow> string list" where
  "split_acc c cur [] = [rev cur]"
| "split_acc c cur (x # xs) =
     (if x = c then rev cur # split_acc c [] xs else split_acc c (x # cur) xs)"

definition split_on :: "char \<Rightarrow> string \<Rightarrow> string list" where
  "split_on c s = split_acc c [] s"

definition startswith :: "string \<Rightarrow> string \<Rightarrow> bool" where
  "startswith s p = (take (length p) s = p)"

definition endswith :: "string \<Rightarrow> string \<Rightarrow> bool" where
  "endswith s p = (length p \<le> length s \<and> drop (length s - length p) s = p)"

text \<open>\<^verbatim>\<open>s.find(p)\<close>: the index of the first occurrence, \<open>None\<close> for Python's -1.\<close>

fun find :: "string \<Rightarrow> string \<Rightarrow> nat option" where
  "find [] p = (if p = [] then Some 0 else None)"
| "find (x # xs) p =
     (if startswith (x # xs) p then Some 0
      else map_option Suc (find xs p))"

definition contains :: "string \<Rightarrow> string \<Rightarrow> bool" where
  "contains s p = (find s p \<noteq> None)"

text \<open>
  \<^verbatim>\<open>s.splitlines()\<close> on ASCII text: a line ends at LF, CR, CR LF, VT, FF, FS, GS or RS,
  and there is no empty last line.
\<close>

definition is_linebreak :: "char \<Rightarrow> bool" where
  "is_linebreak c = (c \<in> set [CHR 0x0A, CHR 0x0B, CHR 0x0C, CHR 0x0D, CHR 0x1C, CHR 0x1D, CHR 0x1E])"

fun splitlines_acc :: "string \<Rightarrow> string \<Rightarrow> string list" where
  "splitlines_acc cur [] = (if cur = [] then [] else [rev cur])"
| "splitlines_acc cur (x # xs) =
     (if x = CHR 0x0D \<and> xs \<noteq> [] \<and> hd xs = CHR 0x0A then rev cur # splitlines_acc [] (tl xs)
      else if is_linebreak x then rev cur # splitlines_acc [] xs
      else splitlines_acc (x # cur) xs)"

definition splitlines :: "string \<Rightarrow> string list" where
  "splitlines s = splitlines_acc [] s"

text \<open>\<^verbatim>\<open>"|".join(parts)\<close>.\<close>

fun join_bar :: "string list \<Rightarrow> string" where
  "join_bar [] = []"
| "join_bar [x] = x"
| "join_bar (x # y # ys) = x @ ''|'' @ join_bar (y # ys)"

definition kvt4_line :: "string \<Rightarrow> string \<Rightarrow> string \<Rightarrow> string \<Rightarrow> string" where
  "kvt4_line c k v t = c @ ''|'' @ k @ ''|'' @ v @ ''|'' @ t"

text \<open>The Python exceptions that the modelled functions can raise.\<close>

datatype py_error = ValueError | KeyError

text \<open>
  \<^verbatim>\<open>re.split\<close> at runs of separator characters (a pattern \<^verbatim>\<open>[...]+\<close>): a run at
  either end leaves an empty first or last piece.
\<close>

fun split_runs :: "(char \<Rightarrow> bool) \<Rightarrow> bool \<Rightarrow> string \<Rightarrow> string \<Rightarrow> string list" where
  "split_runs sep in_run cur [] = [rev cur]"
| "split_runs sep in_run cur (x # xs) =
     (if sep x then
        (if in_run then split_runs sep True cur xs
         else rev cur # split_runs sep True [] xs)
      else split_runs sep False (x # cur) xs)"

definition re_split :: "(char \<Rightarrow> bool) \<Rightarrow> string \<Rightarrow> string list" where
  "re_split sep s = split_runs sep False [] s"

text \<open>\<^verbatim>\<open>s.split()\<close> without argument: the words between runs of white space.\<close>

definition words :: "string \<Rightarrow> string list" where
  "words s = filter (\<lambda>w. w \<noteq> []) (re_split is_space s)"

fun join_with :: "string \<Rightarrow> string list \<Rightarrow> string" where
  "join_with sep [] = []"
| "join_with sep [x] = x"
| "join_with sep (x # y # ys) = x @ sep @ join_with sep (y # ys)"

section \<open>The hallucinated-negative guard\<close>

text \<open>
  \<^verbatim>\<open>_drop_hallucinated_negatives(lines, md_in)\<close> of
  \<^verbatim>\<open>scripts/run_two_stage_structured_pipeline.py\<close>. The first loop collects the guarded
  clusters that have a section header in the Stage-1 Markdown, the second loop copies the
  lines that are kept and counts the dropped ones.
\<close>

definition guarded_clusters :: "string set" where
  "guarded_clusters = {''MEDICATIONS'', ''PROCEDURES''}"

fun present_loop :: "string set \<Rightarrow> string list \<Rightarrow> string set" where
  "present_loop present [] = present"
| "present_loop present (row # rows) =
     (let stripped = strip row in
      if startswith stripped ''## '' then
        (let cluster_name = upper (strip (drop 3 stripped)) in
         if cluster_name \<in> guarded_clusters
         then present_loop (insert cluster_name present) rows
         else present_loop present rows)
      else present_loop present rows)"

definition present_sections :: "string \<Rightarrow> string set" where
  "present_sections md_in = present_loop {} (splitlines md_in)"

fun drop_loop :: "string set \<Rightarrow> string list \<Rightarrow> nat \<Rightarrow> string list \<Rightarrow> string list \<times> nat" where
  "drop_loop present out dropped [] = (out, dropped)"
| "drop_loop present out dropped (row # rows) =
     (let parts = split_on CHR ''|'' row in
      if length parts = 4 then
        (let cluster_u = upper (strip (parts ! 0));
             keyword = strip (parts ! 1);
             value_cf = casefold (strip (parts ! 2)) in
         if cluster_u \<in> guarded_clusters \<and> cluster_u \<notin> present \<and> value_cf = ''no'' then
           (if \<not> (cluster_u = ''PROCEDURES'' \<and> keyword = ''Any Procedure'')
            then drop_loop present out (dropped + 1) rows
            else drop_loop present (out @ [row]) dropped rows)
         else drop_loop present (out @ [row]) dropped rows)
      else drop_loop present (out @ [row]) dropped rows)"

definition drop_hallucinated_negatives :: "string list \<Rightarrow> string \<Rightarrow> string list" where
  "drop_hallucinated_negatives lines md_in = fst (drop_loop (present_sections md_in) [] 0 lines)"

text \<open>
  The Markdown has a section header for a cluster: some line, stripped, starts with
  \<^verbatim>\<open>"## "\<close> and names the cluster (in any letter case).
\<close>

definition has_section :: "string \<Rightarrow> string \<Rightarrow> bool" where
  "has_section md_in c =
     list_ex (\<lambda>row. startswith (strip row) ''## '' \<and> upper (strip (drop 3 (strip row))) = c)
       (splitlines md_in)"

text \<open>The fields of a record line, and the record being a negative (\<^verbatim>\<open>no\<close>) of a cluster.\<close>

definition is_negative_of :: "string \<Rightarrow> string \<Rightarrow> bool" where
  "is_negative_of c row =
     (let parts = split_on CHR ''|'' row in
      length parts = 4 \<and> upper (strip (parts ! 0)) = c \<and> casefold (strip (parts ! 2)) = ''no'')"

definition keyword_of :: "string \<Rightarrow> string" where
  "keyword_of row = strip (split_on CHR ''|'' row ! 1)"

text \<open>What the guard removes, as the code has it.\<close>

definition guard_removes :: "string \<Rightarrow> string \<Rightarrow> bool" where
  "guard_removes md_in row =
     ((is_negative_of ''MEDICATIONS'' row \<and> \<not> has_section md_in ''MEDICATIONS'') \<or>
      (is_negative_of ''PROCEDURES'' row \<and> \<not> has_section md_in ''PROCEDURES''
         \<and> keyword_of row \<noteq> ''Any Procedure''))"

text \<open>
  What the specification says the guard removes: MEDICATIONS negatives, and the PROCEDURES
  negatives of Surgery, Dialysis and Mechanical Ventilation.
\<close>

definition spec_guard_removes :: "string \<Rightarrow> string \<Rightarrow> bool" where
  "spec_guard_removes md_in row =
     ((is_negative_of ''MEDICATIONS'' row \<and> \<not> has_section md_in ''MEDICATIONS'') \<or>
      (is_negative_of ''PROCEDURES'' row \<and> \<not> has_section md_in ''PROCEDURES''
         \<and> keyword_of row \<in> {''Surgery'', ''Dialysis'', ''Mechanical Ventilation''}))"

definition spec_guard :: "string list \<Rightarrow> string \<Rightarrow> string list" where
  "spec_guard lines md_in = filter (\<lambda>row. \<not> spec_guard_removes md_in row) lines"

section \<open>URL normalisation of the LM client\<close>

text \<open>
  \<^verbatim>\<open>OpenAICompatibleChatClient._normalize_urls\<close> of \<^verbatim>\<open>openai_compat.py\<close> calls
  \<^verbatim>\<open>urlparse\<close> and \<^verbatim>\<open>urlunparse\<close> of the Python standard library. Both are
  modelled here after \<^verbatim>\<open>urllib.parse\<close> of CPython 3.12 on ASCII text: the scheme,
  the network location, the path without the parameters of its last segment, the query
  and the fragment. A network location with only one of the two square brackets raises
  \<^verbatim>\<open>ValueError\<close>; the check of the bracketed host itself is not modelled.
\<close>

definition ascii_letters :: string where
  "ascii_letters = ''abcdefghijklmnopqrstuvwxyzABCDEFGHIJKLMNOPQRSTUVWXYZ''"

definition scheme_chars :: string where
  "scheme_chars = ascii_letters @ ''0123456789+-.''"

definition uses_params :: "string list" where
  "uses_params = ['''', ''ftp'', ''hdl'', ''prospero'', ''http'', ''imap'', ''https'', ''shttp'',
     ''rtsp'', ''rtspu'', ''sip'', ''sips'', ''mms'', ''sftp'', ''tel'']"

definition uses_netloc :: "string list" where
  "uses_netloc = ['''', ''ftp'', ''http'', ''gopher'', ''nntp'', ''telnet'', ''imap'', ''wais'',
     ''file'', ''mms'', ''https'', ''shttp'', ''snews'', ''prospero'', ''rtsp'', ''rtspu'',
     ''rsync'', ''svn'', ''svn+ssh'', ''sftp'', ''nfs'', ''git'', ''git+ssh'', ''ws'', ''wss'',
     ''itms-services'']"

record url_parts =
  scheme :: string
  netloc :: string
  path :: string
  params :: string
  query :: string
  fragment :: string

text \<open>\<^verbatim>\<open>s.split(sep, 1)\<close> when \<open>sep\<close> occurs in \<open>s\<close>, else \<open>(s, "")\<close>.\<close>

definition split_once :: "string \<Rightarrow> string \<Rightarrow> string \<times> string" where
  "split_once s sep =
     (case find s sep of
        Some i \<Rightarrow> (take i s, drop (i + length sep) s)
      | None \<Rightarrow> (s, []))"

definition split_scheme :: "string \<Rightarrow> string \<times> string" where
  "split_scheme url =
     (case find url '':'' of
        Some i \<Rightarrow>
          if 0 < i \<and> hd url \<in> set ascii_letters \<and> list_all (\<lambda>c. c \<in> set scheme_chars) (take i url)
          then (lower (take i url), drop (i + 1) url)
          else ([], url)
      | None \<Rightarrow> ([], url))"

definition splitnetloc :: "string \<Rightarrow> string \<times> string" where
  "splitnetloc url =
     (takeWhile (\<lambda>c. c \<notin> set ''/?#'') (drop 2 url), dropWhile (\<lambda>c. c \<notin> set ''/?#'') (drop 2 url))"

definition urlsplit :: "string \<Rightarrow> py_error + url_parts" where
  "urlsplit url0 =
     (let url1 = filter (\<lambda>c. c \<notin> set [CHR 0x09, CHR 0x0D, CHR 0x0A])
                   (dropWhile (\<lambda>c. c \<le> CHR 0x20) url0);
          sr = split_scheme url1;
          nr = (if take 2 (snd sr) = ''//'' then splitnetloc (snd sr) else ([], snd sr));
          loc = fst nr
      in if (CHR ''['' \<in> set loc \<and> CHR '']'' \<notin> set loc) \<or> (CHR '']'' \<in> set loc \<and> CHR ''['' \<notin> set loc)
         then Inl ValueError
         else
           (let fr = split_once (snd nr) ''#'';
                qr = split_once (fst fr) ''?''
            in Inr \<lparr>scheme = fst sr, netloc = loc, path = fst qr, params = [],
                     query = snd qr, fragment = snd fr\<rparr>))"

text \<open>\<^verbatim>\<open>_splitparams\<close>: the parameters after the first semicolon of the last segment.\<close>

definition rfind_slash :: "string \<Rightarrow> nat" where
  "rfind_slash url = length url - 1 - length (takeWhile (\<lambda>c. c \<noteq> CHR ''/'') (rev url))"

definition splitparams :: "string \<Rightarrow> string \<times> string" where
  "splitparams url =
     (if CHR ''/'' \<in> set url then
        (let r = rfind_slash url in
         case find (drop r url) '';'' of
           None \<Rightarrow> (url, [])
         | Some j \<Rightarrow> (take (r + j) url, drop (r + j + 1) url))
      else split_once url '';'')"

definition urlparse :: "string \<Rightarrow> py_error + url_parts" where
  "urlparse url =
     (case urlsplit url of
        Inl e \<Rightarrow> Inl e
      | Inr p \<Rightarrow>
          if scheme p \<in> set uses_params \<and> CHR '';'' \<in> set (path p)
          then Inr (p\<lparr>path := fst (splitparams (path p)), params := snd (splitparams (path p))\<rparr>)
          else Inr p)"

definition urlunsplit :: "string \<Rightarrow> string \<Rightarrow> string \<Rightarrow> string \<Rightarrow> string \<Rightarrow> string" where
  "urlunsplit sch loc url0 qry frag =
     (let url1 = (if loc \<noteq> [] \<or> (sch \<noteq> [] \<and> sch \<in> set uses_netloc \<and> take 2 url0 \<noteq> ''//'')
                  then ''//'' @ loc @ (if url0 \<noteq> [] \<and> take 1 url0 \<noteq> ''/'' then ''/'' @ url0 else url0)
                  else url0);
          url2 = (if sch \<noteq> [] then sch @ '':'' @ url1 else url1);
          url3 = (if qry \<noteq> [] then url2 @ ''?'' @ qry else url2)
      in if frag \<noteq> [] then url3 @ ''#'' @ frag else url3)"

definition urlunparse :: "url_parts \<Rightarrow> string" where
  "urlunparse p =
     urlunsplit (scheme p) (netloc p)
       (if params p \<noteq> [] then path p @ '';'' @ params p else path p) (query p) (fragment p)"

text \<open>The trimming of the path at \<^verbatim>\<open>/v1\<close>, between the two library calls.\<close>

definition trim_v1 :: "string \<Rightarrow> string" where
  "trim_v1 path0 =
     (case find path0 ''/v1'' of
        None \<Rightarrow> path0
      | Some v1_idx \<Rightarrow>
          (let after = drop (v1_idx + length ''/v1'') path0 in
           if after = [] \<or> startswith after ''/'' then take v1_idx path0 else path0))"

definition normalize_urls :: "string \<Rightarrow> py_error + (string \<times> string)" where
  "normalize_urls url =
     (let u = strip url in
      if u = [] then Inr ([], ''/v1'')
      else
        (let u1 = (if \<not> contains u ''://'' then ''http://'' @ u else u) in
         case urlparse u1 of
           Inl e \<Rightarrow> Inl e
         | Inr p \<Rightarrow>
             (let path1 = trim_v1 (rstrip_chars ''/'' (path p));
                  root_url = rstrip_chars ''/''
                           (urlunparse (p\<lparr>path := path1, params := []\<rparr>));
                  v1 = root_url @ ''/v1''
              in Inr (root_url, v1))))"

text \<open>
  The path has a segment boundary after some occurrence of \<^verbatim>\<open>/v1\<close>: the words of the
  specification, which do not say which occurrence.
\<close>

definition v1_at_boundary :: "string \<Rightarrow> nat \<Rightarrow> bool" where
  "v1_at_boundary p i =
     (take 3 (drop i p) = ''/v1'' \<and> (drop (i + 3) p = [] \<or> take 1 (drop (i + 3) p) = ''/''))"

definition has_v1_segment :: "string \<Rightarrow> bool" where
  "has_v1_segment p = list_ex (v1_at_boundary p) [0..<length p]"

section \<open>The risk engine: facts, rule bundle and concept groups\<close>

text \<open>
  \<^verbatim>\<open>Analysis_Readmission/readmission_risk_engine.py\<close>. Python floats are modelled by
  real numbers: rounding, overflow and the special values of IEEE doubles are outside the
  model. A fact value is a float or a string (\<^verbatim>\<open>Union[float, str]\<close>); the field
  \<^verbatim>\<open>is_numeric\<close> of \<^verbatim>\<open>ParsedFact\<close>, which the parser sets exactly when it stores a
  float, is read off the value.
\<close>

datatype fact_value = Num real | Str string

record parsed_fact =
  f_cluster :: string
  f_keyword :: string
  f_value :: fact_value
  f_timestamp :: string
  plausibility_ok :: bool

definition is_numeric :: "parsed_fact \<Rightarrow> bool" where
  "is_numeric f = (case f_value f of Num _ \<Rightarrow> True | Str _ \<Rightarrow> False)"

text \<open>The float of a numeric fact; read only where \<open>is_numeric\<close> has been tested.\<close>

definition num :: "parsed_fact \<Rightarrow> real" where
  "num f = (case f_value f of Num r \<Rightarrow> r | Str _ \<Rightarrow> 0)"

text \<open>
  The rule bundle \<^verbatim>\<open>scoring_rules.json\<close> and the two group bundles are not part of the
  sources; they are parameters. A keyword entry has the keys the code reads. The clusters
  map to association lists (the \<^verbatim>\<open>keywords\<close> dictionaries); a keyword that is looked
  up with \<^verbatim>\<open>rules[k]\<close> and is not there raises \<^verbatim>\<open>KeyError\<close>.
\<close>

record range_rule =
  r_min :: real
  r_max :: real
  r_score :: int
  r_label :: string

record kw_rules =
  kw_type :: string
  ranges :: "range_rule list"
  kw_values :: "(string \<times> int) list"
  plausibility :: "(real \<times> real) option"
  score_if_any_positive :: int
  missing_score :: "int option"

record concept_group =
  g_id :: string
  g_name :: string
  g_synonyms :: "string list"
  risk_weight :: int

record risk_category =
  cat_name :: string
  cat_color :: string
  score_min :: int
  score_max :: int

text \<open>
  \<open>float_str\<close> stands for Python's \<^verbatim>\<open>str\<close> of a float, which is not modelled: every
  theorem holds for any such function.
\<close>

record engine =
  scoring_rules :: "string \<Rightarrow> (string \<times> kw_rules) list"
  problem_groups :: "concept_group list"
  symptom_groups :: "concept_group list"
  risk_categories :: "risk_category list"
  alpha :: real
  beta :: real
  d_max :: real
  gamma :: real
  k_base :: real
  float_str :: "real \<Rightarrow> string"

definition py_str :: "engine \<Rightarrow> fact_value \<Rightarrow> string" where
  "py_str e v = (case v of Num r \<Rightarrow> float_str e r | Str s \<Rightarrow> s)"

definition dict_get0 :: "(string \<times> int) list \<Rightarrow> string \<Rightarrow> int" where
  "dict_get0 d k = (case map_of d k of Some v \<Rightarrow> v | None \<Rightarrow> 0)"

subsection \<open>Layer 2: the concept mapper\<close>

text \<open>\<^verbatim>\<open>_build_synonym_index\<close>: lower-cased synonym to group id, the first entry wins.\<close>

fun index_synonyms :: "string \<Rightarrow> string list \<Rightarrow> (string \<times> string) list \<Rightarrow> (string \<times> string) list" where
  "index_synonyms gid [] idx = idx"
| "index_synonyms gid (syn # syns) idx =
     (let key = lower (strip syn) in
      if map_of idx key = None then index_synonyms gid syns (idx @ [(key, gid)])
      else index_synonyms gid syns idx)"

fun build_synonym_index_loop :: "concept_group list \<Rightarrow> (string \<times> string) list \<Rightarrow> (string \<times> string) list" where
  "build_synonym_index_loop [] idx = idx"
| "build_synonym_index_loop (g # gs) idx =
     build_synonym_index_loop gs (index_synonyms (g_id g) (g_synonyms g) idx)"

definition build_synonym_index :: "concept_group list \<Rightarrow> (string \<times> string) list" where
  "build_synonym_index groups = build_synonym_index_loop groups []"

fun group_by_id :: "concept_group list \<Rightarrow> string \<Rightarrow> concept_group option" where
  "group_by_id [] gid = None"
| "group_by_id (g # gs) gid = (if g_id g = gid then Some g else group_by_id gs gid)"

text \<open>
  The loop of \<^verbatim>\<open>_match_to_group\<close> over the synonym index, with the best word-boundary
  match and the best raw substring match (of four characters or more) and their lengths.
\<close>

fun match_loop :: "string \<Rightarrow> string list \<Rightarrow> (string \<times> string) list \<Rightarrow>
    string option \<Rightarrow> nat \<Rightarrow> string option \<Rightarrow> nat \<Rightarrow> string option \<times> string option" where
  "match_loop kw_lower kw_words [] best_wb best_wb_len best_sub best_sub_len = (best_wb, best_sub)"
| "match_loop kw_lower kw_words ((syn, gid) # rest) best_wb best_wb_len best_sub best_sub_len =
     (if \<not> contains kw_lower syn then
        match_loop kw_lower kw_words rest best_wb best_wb_len best_sub best_sub_len
      else
        (let is_word_match =
               (syn \<in> set kw_words \<or> startswith kw_lower (syn @ '' '')
                \<or> endswith kw_lower ('' '' @ syn) \<or> contains kw_lower ('' '' @ syn @ '' ''))
         in if is_word_match \<and> length syn > best_wb_len then
              match_loop kw_lower kw_words rest (Some gid) (length syn) best_sub best_sub_len
            else if \<not> is_word_match \<and> length syn \<ge> 4 \<and> length syn > best_sub_len then
              match_loop kw_lower kw_words rest best_wb best_wb_len (Some gid) (length syn)
            else match_loop kw_lower kw_words rest best_wb best_wb_len best_sub best_sub_len))"

text \<open>In \<^verbatim>\<open>if gid:\<close> and in \<^verbatim>\<open>a or b\<close> an empty group id counts as no match.\<close>

definition truthy :: "string option \<Rightarrow> string option" where
  "truthy x = (case x of Some s \<Rightarrow> (if s = [] then None else Some s) | None \<Rightarrow> None)"

definition match_to_group :: "string \<Rightarrow> (string \<times> string) list \<Rightarrow> concept_group list \<Rightarrow> concept_group option" where
  "match_to_group kw synonym_index groups =
     (let kw_lower = lower (strip kw) in
      case truthy (map_of synonym_index kw_lower) of
        Some gid \<Rightarrow> group_by_id groups gid
      | None \<Rightarrow>
          (let kw_words = re_split (\<lambda>c. is_space c \<or> c \<in> set '',;/-()'') kw_lower;
               best = match_loop kw_lower kw_words synonym_index None 0 None 0
           in case truthy (fst best) of
                Some gid \<Rightarrow> group_by_id groups gid
              | None \<Rightarrow>
                  (case truthy (snd best) of
                     Some gid \<Rightarrow> group_by_id groups gid
                   | None \<Rightarrow> None)))"

definition map_problem_to_group :: "engine \<Rightarrow> string \<Rightarrow> concept_group option" where
  "map_problem_to_group e kw =
     match_to_group kw (build_synonym_index (problem_groups e)) (problem_groups e)"

definition map_symptom_to_group :: "engine \<Rightarrow> string \<Rightarrow> concept_group option" where
  "map_symptom_to_group e kw =
     match_to_group kw (build_synonym_index (symptom_groups e)) (symptom_groups e)"

subsection \<open>Layer 3: the cluster scorers\<close>

record cluster_score =
  cs_cluster :: string
  cs_score :: int
  cs_max_score :: int

text \<open>
  The \<^verbatim>\<open>contributing_factors\<close> of a cluster score are explanations for the report. They
  are modelled in \<open>score_medications\<close> only, the one scorer that reads them back.
\<close>

fun score_range_loop :: "range_rule list \<Rightarrow> real \<Rightarrow> int \<times> string" where
  "score_range_loop [] v = (0, [])"
| "score_range_loop (r # rs) v =
     (if r_min r \<le> v \<and> v \<le> r_max r then (r_score r, r_label r) else score_range_loop rs v)"

definition score_range_keyword :: "kw_rules \<Rightarrow> real \<Rightarrow> int \<times> string" where
  "score_range_keyword rules v = score_range_loop (ranges rules) v"

fun demographics_loop :: "engine \<Rightarrow> parsed_fact list \<Rightarrow> int \<Rightarrow> bool \<Rightarrow> py_error + (int \<times> bool)" where
  "demographics_loop e [] score age_found = Inr (score, age_found)"
| "demographics_loop e (f # fs) score age_found =
     (if f_keyword f = ''Age'' \<and> is_numeric f then
        (case map_of (scoring_rules e ''DEMOGRAPHICS'') ''Age'' of
           None \<Rightarrow> Inl KeyError
         | Some r \<Rightarrow> demographics_loop e fs (score + fst (score_range_keyword r (num f))) True)
      else if f_keyword f = ''Sex'' then
        (case map_of (scoring_rules e ''DEMOGRAPHICS'') ''Sex'' of
           None \<Rightarrow> Inl KeyError
         | Some r \<Rightarrow>
             demographics_loop e fs
               (score + dict_get0 (kw_values r) (lower (py_str e (f_value f)))) age_found)
      else demographics_loop e fs score age_found)"

definition score_demographics :: "engine \<Rightarrow> parsed_fact list \<Rightarrow> py_error + cluster_score" where
  "score_demographics e facts =
     (case demographics_loop e facts 0 False of
        Inl err \<Rightarrow> Inl err
      | Inr (score, age_found) \<Rightarrow>
          if \<not> age_found then
            (case map_of (scoring_rules e ''DEMOGRAPHICS'') ''Age'' of
               None \<Rightarrow> Inl KeyError
             | Some r \<Rightarrow>
                 Inr \<lparr>cs_cluster = ''DEMOGRAPHICS'',
                      cs_score = score + (case missing_score r of Some d \<Rightarrow> d | None \<Rightarrow> 2),
                      cs_max_score = 10\<rparr>)
          else Inr \<lparr>cs_cluster = ''DEMOGRAPHICS'', cs_score = score, cs_max_score = 10\<rparr>)"

fun vitals_loop :: "engine \<Rightarrow> parsed_fact list \<Rightarrow> int \<Rightarrow> int" where
  "vitals_loop e [] score = score"
| "vitals_loop e (f # fs) score =
     (if \<not> is_numeric f \<or> \<not> plausibility_ok f then vitals_loop e fs score
      else
        (case map_of (scoring_rules e ''VITALS'') (f_keyword f) of
           None \<Rightarrow> vitals_loop e fs score
         | Some r \<Rightarrow>
             if kw_type r = ''no_direct_score'' then vitals_loop e fs score
             else vitals_loop e fs (score + fst (score_range_keyword r (num f)))))"

definition score_vitals :: "engine \<Rightarrow> parsed_fact list \<Rightarrow> cluster_score" where
  "score_vitals e facts =
     \<lparr>cs_cluster = ''VITALS'', cs_score = vitals_loop e facts 0, cs_max_score = 25\<rparr>"

fun labs_loop :: "engine \<Rightarrow> parsed_fact list \<Rightarrow> int \<Rightarrow> int" where
  "labs_loop e [] score = score"
| "labs_loop e (f # fs) score =
     (if \<not> is_numeric f \<or> \<not> plausibility_ok f then labs_loop e fs score
      else
        (case map_of (scoring_rules e ''LABS'') (f_keyword f) of
           None \<Rightarrow> labs_loop e fs score
         | Some r \<Rightarrow> labs_loop e fs (score + fst (score_range_keyword r (num f)))))"

definition score_labs :: "engine \<Rightarrow> parsed_fact list \<Rightarrow> cluster_score" where
  "score_labs e facts =
     \<lparr>cs_cluster = ''LABS'', cs_score = labs_loop e facts 0, cs_max_score = 30\<rparr>"

text \<open>\<^verbatim>\<open>active_groups\<close>: group id to the largest weight seen, in order of insertion.\<close>

definition raise_weight :: "(string \<times> 'w::linorder) list \<Rightarrow> string \<Rightarrow> 'w \<Rightarrow> (string \<times> 'w) list" where
  "raise_weight active gid w =
     (case map_of active gid of
        None \<Rightarrow> active @ [(gid, w)]
      | Some w0 \<Rightarrow> if w > w0 then map (\<lambda>(g, x). if g = gid then (g, w) else (g, x)) active
                   else active)"

fun problems_loop :: "engine \<Rightarrow> parsed_fact list \<Rightarrow> (string \<times> int) list \<Rightarrow> (string \<times> int) list" where
  "problems_loop e [] active = active"
| "problems_loop e (f # fs) active =
     (let val = strip (lower (py_str e (f_value f))) in
      if val \<notin> {''chronic'', ''acute'', ''exist''} then problems_loop e fs active
      else
        (case map_problem_to_group e (f_keyword f) of
           None \<Rightarrow> problems_loop e fs active
         | Some g \<Rightarrow> problems_loop e fs (raise_weight active (g_id g) (risk_weight g))))"

definition score_problems :: "engine \<Rightarrow> parsed_fact list \<Rightarrow> cluster_score" where
  "score_problems e facts =
     (let active_groups = problems_loop e facts [];
          base_score = sum_list (map snd active_groups);
          n_groups = length active_groups;
          mm_bonus = (if n_groups > 3 then min (int n_groups - 3) 5 else 0)
      in \<lparr>cs_cluster = ''PROBLEMS'', cs_score = min (base_score + mm_bonus) 40, cs_max_score = 40\<rparr>)"

text \<open>Python's \<^verbatim>\<open>round\<close> to an integer: a half goes to the even neighbour.\<close>

definition py_round :: "real \<Rightarrow> int" where
  "py_round x =
     (let fl = \<lfloor>x\<rfloor>; d = x - of_int fl in
      if d < 1 / 2 then fl else if d > 1 / 2 then fl + 1 else if even fl then fl else fl + 1)"

definition sev_mult :: "string \<Rightarrow> real" where
  "sev_mult val = (if val = ''severe'' then 3 / 2 else if val = ''yes'' then 1 else 0)"

fun symptoms_loop :: "engine \<Rightarrow> parsed_fact list \<Rightarrow> (string \<times> real) list \<Rightarrow> nat \<Rightarrow> (string \<times> real) list \<times> nat" where
  "symptoms_loop e [] active active_count = (active, active_count)"
| "symptoms_loop e (f # fs) active active_count =
     (let mult = sev_mult (strip (lower (py_str e (f_value f)))) in
      if mult = 0 then symptoms_loop e fs active active_count
      else
        (case map_symptom_to_group e (f_keyword f) of
           None \<Rightarrow> symptoms_loop e fs active (active_count + 1)
         | Some g \<Rightarrow>
             symptoms_loop e fs (raise_weight active (g_id g) (of_int (risk_weight g) * mult))
               (active_count + 1)))"

definition score_symptoms :: "engine \<Rightarrow> parsed_fact list \<Rightarrow> cluster_score" where
  "score_symptoms e facts =
     (let r = symptoms_loop e facts [] 0;
          base_score = sum_list (map snd (fst r));
          bonus = (if snd r > 3 then 2 else 0)
      in \<lparr>cs_cluster = ''SYMPTOMS'', cs_score = min (py_round (base_score + bonus)) 15,
           cs_max_score = 15\<rparr>)"

text \<open>Decimal digits of a natural number, for the \<^verbatim>\<open>+{pts}\<close> of a factor string.\<close>

fun show_nat :: "nat \<Rightarrow> string" where
  "show_nat n =
     (if n < 10 then [''0123456789'' ! n] else show_nat (n div 10) @ [''0123456789'' ! (n mod 10)])"

declare show_nat.simps [simp del]

fun medications_loop :: "engine \<Rightarrow> parsed_fact list \<Rightarrow> int \<Rightarrow> string list \<Rightarrow> real option \<Rightarrow>
    int \<times> string list \<times> real option" where
  "medications_loop e [] score factors med_count_val = (score, factors, med_count_val)"
| "medications_loop e (f # fs) score factors med_count_val =
     (case map_of (scoring_rules e ''MEDICATIONS'') (f_keyword f) of
        None \<Rightarrow> medications_loop e fs score factors med_count_val
      | Some r \<Rightarrow>
          if kw_type r = ''range'' \<and> is_numeric f then
            (let pl = score_range_keyword r (num f);
                 pts = fst pl;
                 mc = (if f_keyword f = ''Medication Count'' then Some (num f) else med_count_val);
                 factors' =
                   (if pts > 0 then
                      factors @ [f_keyword f @ ''='' @ float_str e (num f) @ '' ('' @ snd pl
                                 @ '', +'' @ show_nat (nat pts) @ '')'']
                    else factors)
             in medications_loop e fs (score + pts) factors' mc)
          else if kw_type r = ''categorical'' then
            (let val = strip (lower (py_str e (f_value f)));
                 pts = dict_get0 (kw_values r) val;
                 factors' =
                   (if pts > 0 then
                      factors @ [f_keyword f @ ''='' @ val @ '' (+'' @ show_nat (nat pts) @ '')'']
                    else factors)
             in medications_loop e fs (score + pts) factors' med_count_val)
          else medications_loop e fs score factors med_count_val)"

definition score_medications :: "engine \<Rightarrow> parsed_fact list \<Rightarrow> cluster_score" where
  "score_medications e facts =
     (case medications_loop e facts 0 [] None of
        (score, factors, med_count_val) \<Rightarrow>
          (let polypharmacy_scored = list_ex (\<lambda>f. contains f ''Polypharmacy'') factors;
               derived =
                 (case med_count_val of
                    Some m \<Rightarrow> m \<ge> 5 \<and> \<not> polypharmacy_scored
                  | None \<Rightarrow> False)
           in \<lparr>cs_cluster = ''MEDICATIONS'',
                cs_score = min (if derived then score + 3 else score) 15,
                cs_max_score = 15\<rparr>))"

fun procedures_loop :: "engine \<Rightarrow> parsed_fact list \<Rightarrow> int \<Rightarrow> bool \<Rightarrow> int \<times> bool" where
  "procedures_loop e [] score specific_scored = (score, specific_scored)"
| "procedures_loop e (f # fs) score specific_scored =
     (case map_of (scoring_rules e ''PROCEDURES'') (f_keyword f) of
        None \<Rightarrow> procedures_loop e fs score specific_scored
      | Some r \<Rightarrow>
          if f_keyword f = ''Mechanical Ventilation'' then
            (if is_numeric f \<and> num f > 0 then
               procedures_loop e fs (score + score_if_any_positive r) True
             else if strip (lower (py_str e (f_value f))) \<noteq> ''no'' then
               procedures_loop e fs (score + score_if_any_positive r) True
             else procedures_loop e fs score specific_scored)
          else if f_keyword f = ''Dialysis'' \<or> f_keyword f = ''Surgery'' then
            (let pts = dict_get0 (kw_values r) (strip (lower (py_str e (f_value f)))) in
             procedures_loop e fs (score + pts) (specific_scored \<or> pts > 0))
          else procedures_loop e fs score specific_scored)"

text \<open>The fallback reads the first \<^verbatim>\<open>Any Procedure\<close> fact only.\<close>

fun any_procedure :: "engine \<Rightarrow> parsed_fact list \<Rightarrow> py_error + int" where
  "any_procedure e [] = Inr 0"
| "any_procedure e (f # fs) =
     (if f_keyword f = ''Any Procedure'' then
        (case map_of (scoring_rules e ''PROCEDURES'') ''Any Procedure'' of
           None \<Rightarrow> Inl KeyError
         | Some r \<Rightarrow> Inr (dict_get0 (kw_values r) (strip (lower (py_str e (f_value f))))))
      else any_procedure e fs)"

definition score_procedures :: "engine \<Rightarrow> parsed_fact list \<Rightarrow> py_error + cluster_score" where
  "score_procedures e facts =
     (case procedures_loop e facts 0 False of
        (score, specific_scored) \<Rightarrow>
          if \<not> specific_scored then
            (case any_procedure e facts of
               Inl err \<Rightarrow> Inl err
             | Inr pts \<Rightarrow>
                 Inr \<lparr>cs_cluster = ''PROCEDURES'', cs_score = min (score + pts) 15,
                      cs_max_score = 15\<rparr>)
          else Inr \<lparr>cs_cluster = ''PROCEDURES'', cs_score = min score 15, cs_max_score = 15\<rparr>)"

fun utilization_loop :: "engine \<Rightarrow> parsed_fact list \<Rightarrow> int \<Rightarrow> int" where
  "utilization_loop e [] score = score"
| "utilization_loop e (f # fs) score =
     (if \<not> is_numeric f then utilization_loop e fs score
      else
        (case map_of (scoring_rules e ''UTILIZATION'') (f_keyword f) of
           None \<Rightarrow> utilization_loop e fs score
         | Some r \<Rightarrow> utilization_loop e fs (score + fst (score_range_keyword r (num f)))))"

definition score_utilization :: "engine \<Rightarrow> parsed_fact list \<Rightarrow> cluster_score" where
  "score_utilization e facts =
     \<lparr>cs_cluster = ''UTILIZATION'', cs_score = min (utilization_loop e facts 0) 20,
      cs_max_score = 20\<rparr>"

definition normalize_discharge_disposition :: "string \<Rightarrow> string" where
  "normalize_discharge_disposition v0 =
     (let v = strip v0; v_cf = casefold v in
      if v = [] then v
      else if v_cf \<in> {''home with service'', ''home w service'', ''home with svc'',
                       ''home w/ service''} then ''Home with Services''
      else if v_cf \<in> {''home with services'', ''home w services'', ''home w/ services'',
                       ''home health'', ''home health care''} then ''Home with Services''
      else if v_cf \<in> {''hospice residence'', ''hospice care''} then ''Hospice''
      else v)"

definition normalize_mental_status :: "string \<Rightarrow> string" where
  "normalize_mental_status v0 =
     (let v = strip v0; v_cf = casefold v in
      if v = [] then v
      else if contains v_cf ''alert'' \<and> contains v_cf ''orient'' then ''alert''
      else if v_cf \<in> {''a&o'', ''ao'', ''a/ox3'', ''a/ox4''} then ''alert''
      else v)"

fun disposition_loop :: "engine \<Rightarrow> parsed_fact list \<Rightarrow> int \<Rightarrow> int" where
  "disposition_loop e [] score = score"
| "disposition_loop e (f # fs) score =
     (case map_of (scoring_rules e ''DISPOSITION'') (f_keyword f) of
        None \<Rightarrow> disposition_loop e fs score
      | Some r \<Rightarrow>
          (let val0 = strip (py_str e (f_value f));
               val = (if f_keyword f = ''Discharge Disposition'' then
                        normalize_discharge_disposition val0
                      else if f_keyword f = ''Mental Status'' then normalize_mental_status val0
                      else val0);
               pts = (case map_of (kw_values r) val of
                        Some p \<Rightarrow> p
                      | None \<Rightarrow> dict_get0 (kw_values r) (lower val))
           in disposition_loop e fs (score + pts)))"

definition score_disposition :: "engine \<Rightarrow> parsed_fact list \<Rightarrow> cluster_score" where
  "score_disposition e facts =
     \<lparr>cs_cluster = ''DISPOSITION'', cs_score = min (disposition_loop e facts 0) 15,
      cs_max_score = 15\<rparr>"

subsection \<open>Layer 4: the pattern detector\<close>

text \<open>
  The facts of a stream by cluster, as \<^verbatim>\<open>parse_toon\<close> builds them: an association list
  in order of first appearance; \<open>facts_get\<close> is \<^verbatim>\<open>facts.get(cluster, [])\<close>.
\<close>

type_synonym facts = "(string \<times> parsed_fact list) list"

definition facts_get :: "facts \<Rightarrow> string \<Rightarrow> parsed_fact list" where
  "facts_get facts c = (case map_of facts c of Some fs \<Rightarrow> fs | None \<Rightarrow> [])"

text \<open>
  An interaction result without its \<^verbatim>\<open>description\<close> (an evidence string for the report,
  which prints floats).
\<close>

record interaction_result =
  pattern_id :: string
  pattern_name :: string
  bonus :: int

fun get_val_loop :: "parsed_fact list \<Rightarrow> string \<Rightarrow> real option" where
  "get_val_loop [] keyword = None"
| "get_val_loop (f # fs) keyword =
     (if f_keyword f = keyword \<and> is_numeric f then Some (num f) else get_val_loop fs keyword)"

definition get_val :: "facts \<Rightarrow> string \<Rightarrow> string \<Rightarrow> real option" where
  "get_val facts c keyword = get_val_loop (facts_get facts c) keyword"

fun get_str_loop :: "engine \<Rightarrow> parsed_fact list \<Rightarrow> string \<Rightarrow> string option" where
  "get_str_loop e [] keyword = None"
| "get_str_loop e (f # fs) keyword =
     (if f_keyword f = keyword then Some (strip (lower (py_str e (f_value f))))
      else get_str_loop e fs keyword)"

definition get_str :: "engine \<Rightarrow> facts \<Rightarrow> string \<Rightarrow> string \<Rightarrow> string option" where
  "get_str e facts c keyword = get_str_loop e (facts_get facts c) keyword"

fun symptom_group_loop :: "engine \<Rightarrow> parsed_fact list \<Rightarrow> string \<Rightarrow> bool" where
  "symptom_group_loop e [] group_id = False"
| "symptom_group_loop e (f # fs) group_id =
     (if strip (lower (py_str e (f_value f))) \<in> {''yes'', ''severe''} then
        (case map_symptom_to_group e (f_keyword f) of
           Some g \<Rightarrow> (if g_id g = group_id then True else symptom_group_loop e fs group_id)
         | None \<Rightarrow> symptom_group_loop e fs group_id)
      else symptom_group_loop e fs group_id)"

definition has_symptom_group :: "engine \<Rightarrow> facts \<Rightarrow> string \<Rightarrow> bool" where
  "has_symptom_group e facts group_id = symptom_group_loop e (facts_get facts ''SYMPTOMS'') group_id"

fun problem_group_loop :: "engine \<Rightarrow> parsed_fact list \<Rightarrow> string \<Rightarrow> bool" where
  "problem_group_loop e [] group_id = False"
| "problem_group_loop e (f # fs) group_id =
     (if strip (lower (py_str e (f_value f))) \<in> {''chronic'', ''acute'', ''exist''} then
        (case map_problem_to_group e (f_keyword f) of
           Some g \<Rightarrow> (if g_id g = group_id then True else problem_group_loop e fs group_id)
         | None \<Rightarrow> problem_group_loop e fs group_id)
      else problem_group_loop e fs group_id)"

definition has_problem_group :: "engine \<Rightarrow> facts \<Rightarrow> string \<Rightarrow> bool" where
  "has_problem_group e facts group_id = problem_group_loop e (facts_get facts ''PROBLEMS'') group_id"

text \<open>The group ids of the active problems, each once: the set whose size the code takes.\<close>

fun problem_ids_loop :: "engine \<Rightarrow> parsed_fact list \<Rightarrow> string list \<Rightarrow> string list" where
  "problem_ids_loop e [] ids = ids"
| "problem_ids_loop e (f # fs) ids =
     (if strip (lower (py_str e (f_value f))) \<in> {''chronic'', ''acute'', ''exist''} then
        (case map_problem_to_group e (f_keyword f) of
           Some g \<Rightarrow> problem_ids_loop e fs (if g_id g \<in> set ids then ids else ids @ [g_id g])
         | None \<Rightarrow> problem_ids_loop e fs ids)
      else problem_ids_loop e fs ids)"

definition below :: "real option \<Rightarrow> real \<Rightarrow> bool" where
  "below x c = (case x of Some v \<Rightarrow> v < c | None \<Rightarrow> False)"

definition above :: "real option \<Rightarrow> real \<Rightarrow> bool" where
  "above x c = (case x of Some v \<Rightarrow> v > c | None \<Rightarrow> False)"

definition sepsis_pattern :: "facts \<Rightarrow> interaction_result list" where
  "sepsis_pattern facts =
     (let hr = get_val facts ''VITALS'' ''Heart Rate'';
          sbp = get_val facts ''VITALS'' ''Systolic BP'';
          rr = get_val facts ''VITALS'' ''Respiratory Rate'';
          wbc = get_val facts ''LABS'' ''WBC'';
          temp = get_val facts ''VITALS'' ''Temperature'';
          has_hemodynamic = (below sbp 100 \<or> above rr 22);
          has_infection = ((above wbc 12 \<or> below wbc 4) \<or> above temp (1004 / 10))
      in if above hr 100 \<and> has_hemodynamic \<and> has_infection then
           [\<lparr>pattern_id = ''sepsis_pattern'', pattern_name = ''Sepsis / SIRS Pattern'', bonus = 10\<rparr>]
         else [])"

definition aki_pattern :: "facts \<Rightarrow> interaction_result list" where
  "aki_pattern facts =
     (let cr = get_val facts ''LABS'' ''Creatinine'';
          bun = get_val facts ''LABS'' ''BUN'';
          k = get_val facts ''LABS'' ''Potassium'';
          na = get_val facts ''LABS'' ''Sodium'';
          bicarb = get_val facts ''LABS'' ''Bicarbonate'';
          has_electrolyte = (above k 5 \<or> below na 135 \<or> below bicarb 22)
      in if above cr (15 / 10) \<and> above bun 30 \<and> has_electrolyte then
           [\<lparr>pattern_id = ''aki_pattern'', pattern_name = ''Acute Kidney Injury Pattern'',
             bonus = 8\<rparr>]
         else [])"

definition decompensated_hf :: "engine \<Rightarrow> facts \<Rightarrow> interaction_result list" where
  "decompensated_hf e facts =
     (if has_problem_group e facts ''heart_failure''
         \<and> (has_symptom_group e facts ''edema_fluid''
            \<or> has_symptom_group e facts ''respiratory_distress''
            \<or> above (get_val facts ''LABS'' ''BUN'') 40) then
        [\<lparr>pattern_id = ''decompensated_hf'', pattern_name = ''Decompensated Heart Failure'',
          bonus = 8\<rparr>]
      else [])"

definition frailty_syndrome :: "engine \<Rightarrow> facts \<Rightarrow> interaction_result list" where
  "frailty_syndrome e facts =
     (let age = get_val facts ''DEMOGRAPHICS'' ''Age'';
          hgb = get_val facts ''LABS'' ''Hemoglobin'';
          mental = get_str e facts ''DISPOSITION'' ''Mental Status'';
          disp = get_str e facts ''DISPOSITION'' ''Discharge Disposition'';
          n_problem_groups = length (problem_ids_loop e (facts_get facts ''PROBLEMS'') []);
          frailty_count =
            (if n_problem_groups \<ge> 3 then 1 else 0)
            + (if below hgb 10 then 1 else 0)
            + (if mental \<in> {Some ''confused'', Some ''lethargic''} then 1 else 0)
            + (if disp \<in> {Some ''snf'', Some ''ltac'', Some ''rehab''} then 1 else (0::nat))
      in if above age 75 \<and> frailty_count \<ge> 2 then
           [\<lparr>pattern_id = ''frailty_syndrome'', pattern_name = ''Frailty Syndrome'', bonus = 6\<rparr>]
         else [])"

definition unstable_discharge :: "engine \<Rightarrow> facts \<Rightarrow> interaction_result list" where
  "unstable_discharge e facts =
     (let mental = get_str e facts ''DISPOSITION'' ''Mental Status'';
          disp = get_str e facts ''DISPOSITION'' ''Discharge Disposition''
      in if disp = Some ''ama'' then
           [\<lparr>pattern_id = ''unstable_discharge'', pattern_name = ''Unstable Discharge (AMA)'',
             bonus = 5\<rparr>]
         else if mental \<in> {Some ''confused'', Some ''lethargic''} \<and> disp \<in> {Some ''home'', None} then
           [\<lparr>pattern_id = ''unstable_discharge'',
             pattern_name = ''Unstable Discharge (altered + Home)'', bonus = 5\<rparr>]
         else [])"

definition respiratory_failure :: "engine \<Rightarrow> facts \<Rightarrow> interaction_result list" where
  "respiratory_failure e facts =
     (if below (get_val facts ''VITALS'' ''SpO2'') 92
         \<and> (above (get_val facts ''VITALS'' ''Respiratory Rate'') 24
            \<or> has_symptom_group e facts ''respiratory_distress'') then
        [\<lparr>pattern_id = ''respiratory_failure'', pattern_name = ''Respiratory Failure Pattern'',
          bonus = 6\<rparr>]
      else [])"

definition metabolic_crisis :: "facts \<Rightarrow> interaction_result list" where
  "metabolic_crisis facts =
     (if above (get_val facts ''LABS'' ''Glucose'') 300
         \<and> (below (get_val facts ''LABS'' ''Bicarbonate'') 18
            \<or> above (get_val facts ''LABS'' ''Potassium'') (55 / 10)) then
        [\<lparr>pattern_id = ''metabolic_crisis'', pattern_name = ''Metabolic Crisis (DKA/HHS)'',
          bonus = 6\<rparr>]
      else [])"

definition bleeding_risk :: "engine \<Rightarrow> facts \<Rightarrow> interaction_result list" where
  "bleeding_risk e facts =
     (if below (get_val facts ''LABS'' ''Hemoglobin'') 8
         \<and> (below (get_val facts ''LABS'' ''Platelet'') 100
            \<or> get_str e facts ''MEDICATIONS'' ''Anticoagulation'' = Some ''yes'') then
        [\<lparr>pattern_id = ''bleeding_risk'', pattern_name = ''Active Bleeding Risk'', bonus = 6\<rparr>]
      else [])"

text \<open>
  \<^verbatim>\<open>detect_interactions\<close> appends the results of its eight blocks in this order; it does
  not read the cluster scores it is given.
\<close>

definition detect_interactions :: "engine \<Rightarrow> facts \<Rightarrow> interaction_result list" where
  "detect_interactions e facts =
     sepsis_pattern facts @ aki_pattern facts @ decompensated_hf e facts
     @ frailty_syndrome e facts @ unstable_discharge e facts @ respiratory_failure e facts
     @ metabolic_crisis facts @ bleeding_risk e facts"

subsection \<open>Layers 5 and 6: aggregation, days and survival curve\<close>

text \<open>
  \<^verbatim>\<open>round(x, n)\<close> on the idealised floats: the nearest multiple of \<open>10\<^sup>-\<^sup>n\<close>, a half to
  the even neighbour.
\<close>

definition round_nd :: "nat \<Rightarrow> real \<Rightarrow> real" where
  "round_nd n x = of_int (py_round (x * 10 ^ n)) / 10 ^ n"

definition logistic :: "engine \<Rightarrow> int \<Rightarrow> real" where
  "logistic e score = (let z = alpha e + beta e * of_int score in 1 / (1 + exp (- z)))"

fun classify_loop :: "risk_category list \<Rightarrow> int \<Rightarrow> string \<times> string" where
  "classify_loop [] score = (''Critical'', ''red'')"
| "classify_loop (cat # cats) score =
     (if score_min cat \<le> score \<and> score \<le> score_max cat then (cat_name cat, cat_color cat)
      else classify_loop cats score)"

definition classify_risk :: "engine \<Rightarrow> int \<Rightarrow> string \<times> string" where
  "classify_risk e score = classify_loop (risk_categories e) score"

definition predict_days :: "engine \<Rightarrow> int \<Rightarrow> real" where
  "predict_days e score = max 1 (d_max e * exp (- gamma e * of_int score))"

definition predict_bucket :: "real \<Rightarrow> string" where
  "predict_bucket estimated_days =
     (if estimated_days \<le> 7 then ''0-7 days''
      else if estimated_days \<le> 14 then ''8-14 days'' else ''15-30 days'')"

definition survival_k :: "engine \<Rightarrow> int \<Rightarrow> real" where
  "survival_k e score = max (1 / 2) (k_base e + 2 / 100 * (of_int score - 30))"

definition survival_denom :: "real \<Rightarrow> real" where
  "survival_denom k = (let denom = 1 - exp (- k) in if \<bar>denom\<bar> < 1 / 10 ^ 9 then 1 / 10 ^ 9 else denom)"

definition survival_at :: "engine \<Rightarrow> int \<Rightarrow> real \<Rightarrow> nat \<Rightarrow> real" where
  "survival_at e score p_30d t =
     (let k = survival_k e score;
          f_t = (1 - exp (- (of_nat t / 30) * k)) / survival_denom k;
          p_t = p_30d * f_t
      in round_nd 4 (min (max p_t 0) 1))"

definition predict_survival :: "engine \<Rightarrow> int \<Rightarrow> real \<Rightarrow> (nat \<times> real) list" where
  "predict_survival e score p_30d = map (\<lambda>t. (t, survival_at e score p_30d t)) [7, 14, 21, 30]"

subsection \<open>The scoring pipeline\<close>

text \<open>
  The result of \<^verbatim>\<open>score\<close> without the fields that only explain or count (factor lists,
  missing clusters, completeness, confidence, numbers of parsed and dropped facts).
\<close>

record risk_result =
  composite_score :: int
  cluster_scores :: "cluster_score list"
  interaction_bonus :: int
  interactions_triggered :: "interaction_result list"
  probability :: real
  risk_category_name :: string
  risk_color :: string
  estimated_days :: real
  days_bucket :: string
  survival_curve :: "(nat \<times> real) list"

definition score_clusters :: "engine \<Rightarrow> facts \<Rightarrow> py_error + cluster_score list" where
  "score_clusters e facts =
     (case score_demographics e (facts_get facts ''DEMOGRAPHICS'') of
        Inl err \<Rightarrow> Inl err
      | Inr demographics \<Rightarrow>
          (case score_procedures e (facts_get facts ''PROCEDURES'') of
             Inl err \<Rightarrow> Inl err
           | Inr procedures \<Rightarrow>
               Inr [demographics,
                    score_vitals e (facts_get facts ''VITALS''),
                    score_labs e (facts_get facts ''LABS''),
                    score_problems e (facts_get facts ''PROBLEMS''),
                    score_symptoms e (facts_get facts ''SYMPTOMS''),
                    score_medications e (facts_get facts ''MEDICATIONS''),
                    procedures,
                    score_utilization e (facts_get facts ''UTILIZATION''),
                    score_disposition e (facts_get facts ''DISPOSITION'')]))"

definition score :: "engine \<Rightarrow> facts \<Rightarrow> py_error + risk_result" where
  "score e facts =
     (case score_clusters e facts of
        Inl err \<Rightarrow> Inl err
      | Inr css \<Rightarrow>
          (let interactions = detect_interactions e facts;
               interaction_bonus = sum_list (map bonus interactions);
               composite = sum_list (map cs_score css) + interaction_bonus;
               probability = logistic e composite;
               cat = classify_risk e composite;
               est_days = predict_days e composite
           in Inr \<lparr>composite_score = composite,
                   cluster_scores = css,
                   interaction_bonus = interaction_bonus,
                   interactions_triggered = interactions,
                   probability = round_nd 4 probability,
                   risk_category_name = fst cat,
                   risk_color = snd cat,
                   estimated_days = round_nd 1 est_days,
                   days_bucket = predict_bucket est_days,
                   survival_curve = predict_survival e composite probability\<rparr>))"

subsection \<open>A sample rule bundle\<close>

text \<open>
  A small bundle in the shape the engine reads, for the concrete runs below. Its
  \<open>float_str\<close> prints a whole non-negative float as Python does (\<^verbatim>\<open>3.0\<close>).
\<close>

definition range_kw :: "range_rule list \<Rightarrow> kw_rules" where
  "range_kw rs =
     \<lparr>kw_type = ''range'', ranges = rs, kw_values = [], plausibility = None,
      score_if_any_positive = 0, missing_score = None\<rparr>"

definition categorical_kw :: "(string \<times> int) list \<Rightarrow> kw_rules" where
  "categorical_kw vs =
     \<lparr>kw_type = ''categorical'', ranges = [], kw_values = vs, plausibility = None,
      score_if_any_positive = 0, missing_score = None\<rparr>"

definition sample_rules :: "string \<Rightarrow> (string \<times> kw_rules) list" where
  "sample_rules c =
     (if c = ''DEMOGRAPHICS'' then
        [(''Age'', range_kw [\<lparr>r_min = 65, r_max = 74, r_score = 2, r_label = ''65-74''\<rparr>,
                             \<lparr>r_min = 75, r_max = 120, r_score = 4, r_label = ''75+''\<rparr>]),
         (''Sex'', categorical_kw [(''m'', 1), (''f'', 0)])]
      else if c = ''VITALS'' then
        [(''Heart Rate'', range_kw [\<lparr>r_min = 101, r_max = 250, r_score = 3,
                                      r_label = ''tachycardia''\<rparr>]),
         (''Systolic BP'', range_kw [\<lparr>r_min = 0, r_max = 99, r_score = 4,
                                       r_label = ''hypotension''\<rparr>])]
      else if c = ''LABS'' then
        [(''WBC'', range_kw [\<lparr>r_min = 12, r_max = 100, r_score = 2, r_label = ''leukocytosis''\<rparr>])]
      else if c = ''PROCEDURES'' then
        [(''Any Procedure'', categorical_kw [(''yes'', 2), (''no'', 0)])]
      else if c = ''UTILIZATION'' then
        [(''Prior Admissions 12mo'',
          range_kw [\<lparr>r_min = 1, r_max = 2, r_score = 4, r_label = ''1-2 prior''\<rparr>,
                    \<lparr>r_min = 3, r_max = 100, r_score = 8, r_label = ''3+ prior''\<rparr>])]
      else if c = ''DISPOSITION'' then
        [(''Discharge Disposition'',
          categorical_kw [(''Home'', 0), (''Home with Services'', 2), (''Rehab'', 3), (''SNF'', 4),
                          (''LTAC'', 5), (''Hospice'', 0), (''AMA'', 6)]),
         (''Mental Status'',
          categorical_kw [(''alert'', 0), (''confused'', 4), (''lethargic'', 4)])]
      else [])"

definition sample_engine :: engine where
  "sample_engine =
     \<lparr>scoring_rules = sample_rules, problem_groups = [], symptom_groups = [],
      risk_categories = [\<lparr>cat_name = ''Low'', cat_color = ''green'', score_min = 0, score_max = 19\<rparr>,
                         \<lparr>cat_name = ''Medium'', cat_color = ''yellow'', score_min = 20,
                          score_max = 39\<rparr>,
                         \<lparr>cat_name = ''High'', cat_color = ''orange'', score_min = 40,
                          score_max = 59\<rparr>],
      alpha = - 3, beta = 5 / 100, d_max = 30, gamma = 3 / 100, k_base = 3 / 2,
      float_str = (\<lambda>r. show_nat (nat \<lfloor>r\<rfloor>) @ ''.0'')\<rparr>"

definition numeric_fact :: "string \<Rightarrow> string \<Rightarrow> real \<Rightarrow> string \<Rightarrow> parsed_fact" where
  "numeric_fact c k v t =
     \<lparr>f_cluster = c, f_keyword = k, f_value = Num v, f_timestamp = t, plausibility_ok = True\<rparr>"

definition text_fact :: "string \<Rightarrow> string \<Rightarrow> string \<Rightarrow> string \<Rightarrow> parsed_fact" where
  "text_fact c k v t =
     \<lparr>f_cluster = c, f_keyword = k, f_value = Str v, f_timestamp = t, plausibility_ok = True\<rparr>"

definition sepsis_facts :: facts where
  "sepsis_facts =
     [(''VITALS'', [numeric_fact ''VITALS'' ''Heart Rate'' 120 ''Admission'',
                    numeric_fact ''VITALS'' ''Systolic BP'' 90 ''Admission'',
                    numeric_fact ''VITALS'' ''Respiratory Rate'' 26 ''Admission'',
                    numeric_fact ''VITALS'' ''Temperature'' 101 ''Admission'']),
      (''LABS'', [numeric_fact ''LABS'' ''WBC'' 15 ''Admission''])]"

definition confused_facts :: facts where
  "confused_facts = [(''DISPOSITION'', [text_fact ''DISPOSITION'' ''Mental Status'' ''confused'' ''Discharge''])]"

definition confused_rehab_facts :: facts where
  "confused_rehab_facts =
     [(''DISPOSITION'', [text_fact ''DISPOSITION'' ''Mental Status'' ''confused'' ''Discharge'',
                         text_fact ''DISPOSITION'' ''Discharge Disposition'' ''Rehab'' ''Discharge''])]"

section \<open>Facts about the string operations\<close>

lemmas str_defs = is_space_def is_digit_def lower_char_def upper_char_def lower_def upper_def
  casefold_def lstrip_def rstrip_def strip_def lstrip_chars_def rstrip_chars_def strip_chars_def
  startswith_def endswith_def splitlines_def is_linebreak_def split_on_def contains_def

lemma split_acc_nonempty: "split_acc c cur s \<noteq> []"
  by (induction s arbitrary: cur) auto

lemma split_on_nonempty: "split_on c s \<noteq> []"
  by (simp add: split_on_def split_acc_nonempty)

lemma length_split_on_pos: "0 < length (split_on c s)"
  using split_on_nonempty by blast

lemma find_Some_take: "find s p = Some i \<Longrightarrow> take (length p) (drop i s) = p"
proof (induction s arbitrary: i)
  case Nil
  then show ?case by (simp split: if_splits)
next
  case (Cons x xs)
  show ?case
  proof (cases "startswith (x # xs) p")
    case True
    with Cons.prems show ?thesis by (simp add: startswith_def)
  next
    case False
    with Cons.prems obtain j where "find xs p = Some j" "i = Suc j" by auto
    with Cons.IH show ?thesis by simp
  qed
qed

section \<open>The guard is a filter\<close>

lemma present_loop_mono: "c \<in> present \<Longrightarrow> c \<in> present_loop present rows"
  by (induction rows arbitrary: present) (auto simp: Let_def)

lemma present_loop_iff:
  "c \<in> present_loop present rows \<longleftrightarrow>
     c \<in> present \<or> (c \<in> guarded_clusters \<and>
       list_ex (\<lambda>row. startswith (strip row) ''## '' \<and> upper (strip (drop 3 (strip row))) = c) rows)"
proof (induction rows arbitrary: present)
  case Nil
  then show ?case by simp
next
  case (Cons row rows)
  show ?case
    by (auto simp: Let_def Cons.IH)
qed

lemma present_sections_iff:
  "c \<in> present_sections md_in \<longleftrightarrow> c \<in> guarded_clusters \<and> has_section md_in c"
  by (simp add: present_sections_def has_section_def present_loop_iff)

lemma drop_loop_filter:
  "fst (drop_loop (present_sections md_in) out n rows) =
     out @ filter (\<lambda>row. \<not> guard_removes md_in row) rows"
proof (induction rows arbitrary: out n)
  case Nil
  then show ?case by simp
next
  case (Cons row rows)
  have rem: "guard_removes md_in row \<longleftrightarrow>
      (let parts = split_on CHR ''|'' row in
       length parts = 4 \<and> upper (strip (parts ! 0)) \<in> guarded_clusters
         \<and> upper (strip (parts ! 0)) \<notin> present_sections md_in
         \<and> casefold (strip (parts ! 2)) = ''no''
         \<and> \<not> (upper (strip (parts ! 0)) = ''PROCEDURES'' \<and> strip (parts ! 1) = ''Any Procedure''))"
    by (auto simp: guard_removes_def is_negative_of_def keyword_of_def Let_def
          present_sections_iff guarded_clusters_def)
  show ?case
  proof (cases "guard_removes md_in row")
    case True
    with rem show ?thesis
      by (simp add: Let_def Cons.IH)
  next
    case False
    with rem show ?thesis
      by (auto simp: Let_def Cons.IH)
  qed
qed

text \<open>
  C8 (as the code has it). The guard is the filter that removes, when the Markdown has no
  MEDICATIONS header, every MEDICATIONS record with value \<^verbatim>\<open>no\<close>, and, when it has no
  PROCEDURES header, every PROCEDURES record with value \<^verbatim>\<open>no\<close> whose keyword is not
  \<^verbatim>\<open>Any Procedure\<close>. Every other record, each \<^verbatim>\<open>PROCEDURES|Any Procedure|no\<close>
  among them, is kept unchanged and in its place.
\<close>

theorem drop_hallucinated_negatives_filter:
  "drop_hallucinated_negatives lines md_in = filter (\<lambda>row. \<not> guard_removes md_in row) lines"
  by (simp add: drop_hallucinated_negatives_def drop_loop_filter)

text \<open>
  An instance: with no MEDICATIONS and no PROCEDURES header, the Polypharmacy and Surgery
  negatives go, both \<^verbatim>\<open>Any Procedure\<close> negatives and the vital sign stay.
\<close>

theorem drop_hallucinated_negatives_filter_witness:
  "drop_hallucinated_negatives
     [''PROCEDURES|Any Procedure|no|Admission'', ''MEDICATIONS|Polypharmacy|No|Admission'',
      ''PROCEDURES|Surgery|no|Admission'', ''VITALS|Heart Rate|72|Admission'',
      ''PROCEDURES|Any Procedure|no|Admission''] ''## VITALS'' =
     [''PROCEDURES|Any Procedure|no|Admission'', ''VITALS|Heart Rate|72|Admission'',
      ''PROCEDURES|Any Procedure|no|Admission'']"
  using drop_hallucinated_negatives_filter
    [of "[''PROCEDURES|Any Procedure|no|Admission'', ''MEDICATIONS|Polypharmacy|No|Admission'',
      ''PROCEDURES|Surgery|no|Admission'', ''VITALS|Heart Rate|72|Admission'',
      ''PROCEDURES|Any Procedure|no|Admission'']" "''## VITALS''"]
  by (simp add: guard_removes_def is_negative_of_def keyword_of_def has_section_def str_defs)

text \<open>
  C8 as the specification words it fails: a PROCEDURES negative whose keyword is none of
  Surgery, Dialysis, Mechanical Ventilation and Any Procedure is a record the specification
  lets through, and the code drops it.
\<close>

theorem drop_hallucinated_negatives_counterexample:
  "drop_hallucinated_negatives [''PROCEDURES|Biopsy|no|Admission''] [] = [] \<and>
   spec_guard [''PROCEDURES|Biopsy|no|Admission''] [] = [''PROCEDURES|Biopsy|no|Admission'']"
  by (simp add: drop_hallucinated_negatives_def present_sections_def guarded_clusters_def
        spec_guard_def spec_guard_removes_def is_negative_of_def keyword_of_def has_section_def
        str_defs)

section \<open>URL normalisation\<close>

lemmas url_defs = normalize_urls_def urlparse_def urlsplit_def split_scheme_def splitnetloc_def
  split_once_def urlunparse_def urlunsplit_def trim_v1_def splitparams_def rfind_slash_def
  ascii_letters_def scheme_chars_def uses_params_def uses_netloc_def

text \<open>Whenever the function returns, the second component is the first plus \<^verbatim>\<open>/v1\<close>.\<close>

lemma normalize_urls_v1: "normalize_urls url = Inr (root_url, v1) \<Longrightarrow> v1 = root_url @ ''/v1''"
  by (auto simp: normalize_urls_def Let_def split: sum.splits if_splits)

text \<open>The path is cut where \<^verbatim>\<open>/v1\<close> occurs first, if a segment ends there.\<close>

lemma trim_v1_first:
  "find p ''/v1'' = Some i \<Longrightarrow> v1_at_boundary p i \<Longrightarrow> trim_v1 p = take i p"
  by (auto simp: trim_v1_def v1_at_boundary_def startswith_def Let_def eval_nat_numeral)

lemma trim_v1_not_boundary:
  "find p ''/v1'' = Some i \<Longrightarrow> \<not> v1_at_boundary p i \<Longrightarrow> trim_v1 p = p"
proof -
  assume f: "find p ''/v1'' = Some i" and nb: "\<not> v1_at_boundary p i"
  from find_Some_take [OF f] have "take 3 (drop i p) = ''/v1''"
    by (simp add: eval_nat_numeral)
  with nb f show ?thesis
    by (auto simp: trim_v1_def v1_at_boundary_def startswith_def Let_def eval_nat_numeral)
qed

text \<open>The cases of \<^verbatim>\<open>tests/test_openai_compat_url_normalization.py\<close>.\<close>

lemma normalize_urls_root:
  "normalize_urls ''http://127.0.0.1:1245'' =
     Inr (''http://127.0.0.1:1245'', ''http://127.0.0.1:1245/v1'')"
  by (simp add: url_defs str_defs)

lemma normalize_urls_v1_root:
  "normalize_urls ''http://127.0.0.1:1245/v1'' =
     Inr (''http://127.0.0.1:1245'', ''http://127.0.0.1:1245/v1'')"
  by (simp add: url_defs str_defs)

lemma normalize_urls_endpoint:
  "normalize_urls ''http://127.0.0.1:1245/v1/chat/completions'' =
     Inr (''http://127.0.0.1:1245'', ''http://127.0.0.1:1245/v1'')"
  by (simp add: url_defs str_defs)

lemma normalize_urls_no_scheme:
  "normalize_urls ''127.0.0.1:1245/v1/models'' =
     Inr (''http://127.0.0.1:1245'', ''http://127.0.0.1:1245/v1'')"
  by (simp add: url_defs str_defs)

lemma normalize_urls_api_prefix:
  "normalize_urls ''http://localhost:8080/api/v1/chat/completions'' =
     Inr (''http://localhost:8080/api'', ''http://localhost:8080/api/v1'')"
  by (simp add: url_defs str_defs)

lemma normalize_urls_v1beta:
  "normalize_urls ''http://localhost:8080/v1beta'' =
     Inr (''http://localhost:8080/v1beta'', ''http://localhost:8080/v1beta/v1'')"
  by (simp add: url_defs str_defs)

text \<open>
  C9. The path \<^verbatim>\<open>/v1beta/v1/chat/completions\<close> has \<^verbatim>\<open>/v1\<close> at a segment boundary
  (its second occurrence), and nothing is trimmed: \<^verbatim>\<open>path.find("/v1")\<close> returns the
  first occurrence only, which is the one inside \<^verbatim>\<open>/v1beta\<close>.
\<close>

theorem normalize_urls_later_v1_segment:
  "has_v1_segment ''/v1beta/v1/chat/completions'' \<and>
   normalize_urls ''http://localhost:8080/v1beta/v1/chat/completions'' =
     Inr (''http://localhost:8080/v1beta/v1/chat/completions'',
          ''http://localhost:8080/v1beta/v1/chat/completions/v1'')"
  by (simp add: url_defs str_defs has_v1_segment_def v1_at_boundary_def upt_rec)

end
